theory Spec2Isabelle
  imports Complex_Main
begin

section \<open>JavaScript numbers\<close>

text \<open>
  A JavaScript number is an IEEE-754 double. The model keeps the three special values
  of a double and takes every finite value as an exact real: arithmetic on finite values
  is computed without rounding and without overflow, and the two zeros are one value.
  What the model keeps is the propagation of \<open>NaN\<close> and of the infinities, on which the
  handlers' behaviour for unparsable input depends. A number read from a string is
  brought into the range of the doubles (\<open>numberValue\<close> below).
\<close>

datatype jsnum = NaN | PInf | NInf | Fin real

fun js_neg :: "jsnum \<Rightarrow> jsnum" where
  "js_neg NaN = NaN"
| "js_neg PInf = NInf"
| "js_neg NInf = PInf"
| "js_neg (Fin x) = Fin (- x)"

fun js_add :: "jsnum \<Rightarrow> jsnum \<Rightarrow> jsnum" where
  "js_add (Fin x) (Fin y) = Fin (x + y)"
| "js_add NaN _ = NaN"
| "js_add _ NaN = NaN"
| "js_add PInf NInf = NaN"
| "js_add NInf PInf = NaN"
| "js_add PInf _ = PInf"
| "js_add _ PInf = PInf"
| "js_add NInf _ = NInf"
| "js_add _ NInf = NInf"

definition js_sub :: "jsnum \<Rightarrow> jsnum \<Rightarrow> jsnum" where
  "js_sub a b = js_add a (js_neg b)"

fun js_mul :: "jsnum \<Rightarrow> jsnum \<Rightarrow> jsnum" where
  "js_mul (Fin x) (Fin y) = Fin (x * y)"
| "js_mul NaN _ = NaN"
| "js_mul _ NaN = NaN"
| "js_mul PInf (Fin y) = (if y = 0 then NaN else if 0 < y then PInf else NInf)"
| "js_mul NInf (Fin y) = (if y = 0 then NaN else if 0 < y then NInf else PInf)"
| "js_mul (Fin x) PInf = (if x = 0 then NaN else if 0 < x then PInf else NInf)"
| "js_mul (Fin x) NInf = (if x = 0 then NaN else if 0 < x then NInf else PInf)"
| "js_mul PInf PInf = PInf"
| "js_mul PInf NInf = NInf"
| "js_mul NInf PInf = NInf"
| "js_mul NInf NInf = PInf"

text \<open>
  Division by a finite zero follows the positive zero, as the sign of a zero is not
  modelled; the source divides by the constants 2 and 180 only.
\<close>

fun js_div :: "jsnum \<Rightarrow> jsnum \<Rightarrow> jsnum" where
  "js_div (Fin x) (Fin y) =
     (if y = 0 then (if x = 0 then NaN else if 0 < x then PInf else NInf)
      else Fin (x / y))"
| "js_div NaN _ = NaN"
| "js_div _ NaN = NaN"
| "js_div (Fin x) PInf = Fin 0"
| "js_div (Fin x) NInf = Fin 0"
| "js_div PInf (Fin y) = (if 0 \<le> y then PInf else NInf)"
| "js_div NInf (Fin y) = (if 0 \<le> y then NInf else PInf)"
| "js_div _ _ = NaN"

text \<open>The comparison \<open>a <= b\<close>: false as soon as one side is \<open>NaN\<close>.\<close>

fun js_le :: "jsnum \<Rightarrow> jsnum \<Rightarrow> bool" where
  "js_le (Fin x) (Fin y) = (x \<le> y)"
| "js_le NaN _ = False"
| "js_le _ NaN = False"
| "js_le NInf _ = True"
| "js_le _ PInf = True"
| "js_le _ _ = False"

fun Math_sin :: "jsnum \<Rightarrow> jsnum" where
  "Math_sin (Fin x) = Fin (sin x)"
| "Math_sin _ = NaN"

fun Math_cos :: "jsnum \<Rightarrow> jsnum" where
  "Math_cos (Fin x) = Fin (cos x)"
| "Math_cos _ = NaN"

fun Math_sqrt :: "jsnum \<Rightarrow> jsnum" where
  "Math_sqrt (Fin x) = (if x < 0 then NaN else Fin (sqrt x))"
| "Math_sqrt PInf = PInf"
| "Math_sqrt _ = NaN"

text \<open>The angle of the point \<open>(x, y)\<close>, in \<open>(-\<pi>, \<pi>]\<close>, on finite arguments.\<close>

definition atan2 :: "real \<Rightarrow> real \<Rightarrow> real" where
  "atan2 y x =
     (if 0 < x then arctan (y / x)
      else if x < 0 then (if 0 \<le> y then arctan (y / x) + pi else arctan (y / x) - pi)
      else if 0 < y then pi / 2
      else if y < 0 then - (pi / 2)
      else 0)"

fun Math_atan2 :: "jsnum \<Rightarrow> jsnum \<Rightarrow> jsnum" where
  "Math_atan2 (Fin y) (Fin x) = Fin (atan2 y x)"
| "Math_atan2 NaN _ = NaN"
| "Math_atan2 _ NaN = NaN"
| "Math_atan2 (Fin y) PInf = Fin 0"
| "Math_atan2 (Fin y) NInf = (if 0 \<le> y then Fin pi else Fin (- pi))"
| "Math_atan2 PInf (Fin x) = Fin (pi / 2)"
| "Math_atan2 NInf (Fin x) = Fin (- (pi / 2))"
| "Math_atan2 PInf PInf = Fin (pi / 4)"
| "Math_atan2 PInf NInf = Fin (3 * pi / 4)"
| "Math_atan2 NInf PInf = Fin (- (pi / 4))"
| "Math_atan2 NInf NInf = Fin (- (3 * pi / 4))"

definition Math_PI :: jsnum where
  "Math_PI = Fin pi"

section \<open>The haversine distance\<close>

definition deg2rad :: "jsnum \<Rightarrow> jsnum" where
  "deg2rad deg = js_mul deg (js_div Math_PI (Fin 180))"

definition getDistanceFromLatLonInKm :: "jsnum \<Rightarrow> jsnum \<Rightarrow> jsnum \<Rightarrow> jsnum \<Rightarrow> jsnum" where
  "getDistanceFromLatLonInKm lat1 lon1 lat2 lon2 =
     (let R = Fin 6371;
          dLat = deg2rad (js_sub lat2 lat1);
          dLon = deg2rad (js_sub lon2 lon1);
          a = js_add
                (js_mul (Math_sin (js_div dLat (Fin 2))) (Math_sin (js_div dLat (Fin 2))))
                (js_mul
                   (js_mul
                      (js_mul (Math_cos (deg2rad lat1)) (Math_cos (deg2rad lat2)))
                      (Math_sin (js_div dLon (Fin 2))))
                   (Math_sin (js_div dLon (Fin 2))));
          c = js_mul (Fin 2) (Math_atan2 (Math_sqrt a) (Math_sqrt (js_sub (Fin 1) a)))
      in js_mul R c)"


section \<open>JavaScript values\<close>

text \<open>
  A field of a parsed JSON body or of a parsed query string: absent (\<open>Undefined\<close>),
  a primitive, or an array or object. An array or object is kept as far as the
  handlers observe it: its identity, which \<open>===\<close> compares, and the string it
  converts to, which \<open>parseFloat\<close> and \<open>parseInt\<close> read. The characters of a string
  are the code units below 256.
\<close>

datatype jsval =
    Undefined
  | Null
  | Bool bool
  | Number jsnum
  | String string
  | Object nat string

text \<open>The conversion to a boolean that \<open>!\<close>, \<open>&&\<close> and \<open>if\<close> apply.\<close>

fun truthy :: "jsval \<Rightarrow> bool" where
  "truthy Undefined = False"
| "truthy Null = False"
| "truthy (Bool b) = b"
| "truthy (Number n) = (n \<noteq> NaN \<and> n \<noteq> Fin 0)"
| "truthy (String s) = (s \<noteq> [])"
| "truthy (Object a s) = True"

text \<open>The operator \<open>===\<close>: no conversion, \<open>NaN\<close> differs from itself, objects by identity.\<close>

fun strict_eq :: "jsval \<Rightarrow> jsval \<Rightarrow> bool" where
  "strict_eq Undefined Undefined = True"
| "strict_eq Null Null = True"
| "strict_eq (Bool a) (Bool b) = (a = b)"
| "strict_eq (Number a) (Number b) = (a \<noteq> NaN \<and> a = b)"
| "strict_eq (String a) (String b) = (a = b)"
| "strict_eq (Object a s) (Object b t) = (a = b)"
| "strict_eq _ _ = False"

subsection \<open>Reading numbers from strings\<close>

definition isWhiteSpace :: "char \<Rightarrow> bool" where
  "isWhiteSpace c = (of_char c \<in> {9, 10, 11, 12, 13, 32, 160 :: nat})"

definition isDecimalDigit :: "char \<Rightarrow> bool" where
  "isDecimalDigit c = (48 \<le> (of_char c :: nat) \<and> (of_char c :: nat) \<le> 57)"

text \<open>The value of a character as a digit of the radix, if it is one.\<close>

definition radixDigit :: "nat \<Rightarrow> char \<Rightarrow> nat option" where
  "radixDigit radix c =
     (let n = of_char c :: nat;
          v = (if 48 \<le> n \<and> n \<le> 57 then Some (n - 48)
               else if 97 \<le> n \<and> n \<le> 122 then Some (n - 87)
               else if 65 \<le> n \<and> n \<le> 90 then Some (n - 55)
               else None)
      in case v of None \<Rightarrow> None | Some d \<Rightarrow> if d < radix then Some d else None)"

definition digitsValue :: "nat \<Rightarrow> string \<Rightarrow> nat" where
  "digitsValue radix ds =
     foldl (\<lambda>acc c. acc * radix + (case radixDigit radix c of Some d \<Rightarrow> d | None \<Rightarrow> 0)) 0 ds"

text \<open>
  The Number value of a real that a literal denotes. From \<open>2\<^sup>1\<^sup>0\<^sup>2\<^sup>4 - 2\<^sup>9\<^sup>7\<^sup>0\<close> on, half
  a unit above the largest double, it is an infinity; up to \<open>2\<^sup>-\<^sup>1\<^sup>0\<^sup>7\<^sup>5\<close>, half the
  smallest double, it is 0; in between it is the real itself, not rounded.
\<close>

definition numberValue :: "real \<Rightarrow> jsnum" where
  "numberValue x =
     (if 2 ^ 1024 - 2 ^ 970 \<le> x then PInf
      else if x \<le> - (2 ^ 1024 - 2 ^ 970) then NInf
      else if \<bar>x\<bar> \<le> 1 / 2 ^ 1075 then Fin 0
      else Fin x)"

definition strip_sign :: "string \<Rightarrow> bool \<times> string" where
  "strip_sign s =
     (case s of
        [] \<Rightarrow> (False, [])
      | c # t \<Rightarrow> if c = CHR ''-'' then (True, t)
                 else if c = CHR ''+'' then (False, t)
                 else (False, s))"

definition exponentPart :: "string \<Rightarrow> int" where
  "exponentPart s =
     (case s of
        [] \<Rightarrow> 0
      | c # t \<Rightarrow>
          if c = CHR ''e'' \<or> c = CHR ''E'' then
            (let (eneg, t') = strip_sign t;
                 ds = takeWhile isDecimalDigit t'
             in if ds = [] then 0
                else if eneg then - int (digitsValue 10 ds) else int (digitsValue 10 ds))
          else 0)"

text \<open>
  \<open>parseFloat\<close> on a string: leading white space is dropped, and the longest prefix
  that is a decimal literal (sign, \<open>Infinity\<close>, or digits with an optional fraction and
  an optional exponent) is read, and its Number value is the result; without one the
  result is \<open>NaN\<close>.
\<close>

definition parseFloat_str :: "string \<Rightarrow> jsnum" where
  "parseFloat_str s =
     (let (neg, body) = strip_sign (dropWhile isWhiteSpace s)
      in if take 8 body = ''Infinity'' then (if neg then NInf else PInf)
         else
           (let intPart = takeWhile isDecimalDigit body;
                rest1 = dropWhile isDecimalDigit body;
                (fracPart, rest2) =
                  (case rest1 of
                     [] \<Rightarrow> ([], [])
                   | c # t \<Rightarrow> if c = CHR ''.''
                              then (takeWhile isDecimalDigit t, dropWhile isDecimalDigit t)
                              else ([], rest1))
            in if intPart = [] \<and> fracPart = [] then NaN
               else
                 (let mag = (real (digitsValue 10 intPart)
                             + real (digitsValue 10 fracPart) / 10 ^ length fracPart)
                            * 10 powi exponentPart rest2
                  in numberValue (if neg then - mag else mag))))"

text \<open>
  \<open>parseFloat\<close> converts its argument to a string first. The string of a number reads
  back as that number; \<open>undefined\<close>, \<open>null\<close>, \<open>true\<close> and \<open>false\<close> start with no
  literal.
\<close>

fun parseFloat :: "jsval \<Rightarrow> jsnum" where
  "parseFloat (String s) = parseFloat_str s"
| "parseFloat (Object a s) = parseFloat_str s"
| "parseFloat (Number n) = n"
| "parseFloat _ = NaN"

text \<open>
  \<open>parseInt\<close> with no radix on a string: white space, sign, the prefix \<open>0x\<close> or \<open>0X\<close>
  for radix 16, then the longest run of digits of the radix, of which the Number
  value is the result: an infinity when the digits go beyond the doubles.
\<close>

definition parseInt_str :: "string \<Rightarrow> jsnum" where
  "parseInt_str s =
     (let (neg, body) = strip_sign (dropWhile isWhiteSpace s);
          hex = (take 2 body = ''0x'' \<or> take 2 body = ''0X'');
          radix = (if hex then 16 else 10);
          Z = takeWhile (\<lambda>c. radixDigit radix c \<noteq> None) (if hex then drop 2 body else body)
      in if Z = [] then NaN
         else numberValue
                (if neg then - real (digitsValue radix Z) else real (digitsValue radix Z)))"

text \<open>
  \<open>parseInt\<close> on a finite number reads the number's string. From \<open>10\<^sup>-\<^sup>6\<close> up to
  \<open>10\<^sup>2\<^sup>1\<close> that string is in plain notation and its integer part is read, which is
  the number's own. Outside, the string is in exponent notation and its leading digit
  is read: the leading digit of the shortest decimal that denotes the double, which
  the digits of the real do not determine (the double nearest \<open>5e-7\<close> lies below it
  and is written \<open>5e-7\<close>); and the double nearest \<open>10\<^sup>-\<^sup>6\<close> lies below it and is still
  written in plain notation, of which 0 is read. The model leaves open which of
  0 to 9 is read there.
\<close>

definition exponentLeadingDigit :: "real \<Rightarrow> int" where
  "exponentLeadingDigit x = (SOME d. 0 \<le> d \<and> d \<le> 9)"

definition parseInt_num :: "real \<Rightarrow> jsnum" where
  "parseInt_num x =
     (let sign = (if x < 0 then - 1 else 1 :: int)
      in if x = 0 then Fin 0
         else if 1 / 10 ^ 6 \<le> \<bar>x\<bar> \<and> \<bar>x\<bar> < 10 ^ 21
           then Fin (of_int (sign * \<lfloor>\<bar>x\<bar>\<rfloor>))
         else Fin (of_int (sign * exponentLeadingDigit x)))"

fun parseInt :: "jsval \<Rightarrow> jsnum" where
  "parseInt (String s) = parseInt_str s"
| "parseInt (Object a s) = parseInt_str s"
| "parseInt (Number (Fin x)) = parseInt_num x"
| "parseInt _ = NaN"


subsection \<open>Writing numbers as strings\<close>

definition digitChar :: "nat \<Rightarrow> char" where
  "digitChar d = char_of (48 + d)"

text \<open>The decimal digits of a natural number, most significant first; \<open>0\<close> is \<open>''0''\<close>.\<close>

fun decimalString :: "nat \<Rightarrow> string" where
  "decimalString n =
     (if n < 10 then [digitChar n] else decimalString (n div 10) @ [digitChar (n mod 10)])"

declare decimalString.simps [simp del]

text \<open>
  \<open>x.toFixed(f)\<close>. For a finite \<open>x\<close> below \<open>10\<^sup>2\<^sup>1\<close> in magnitude: \<open>n\<close> is the integer
  nearest to \<open>x \<sqdot> 10\<^sup>f\<close>, the larger one of two; its digits are padded with zeros
  to \<open>f + 1\<close> characters and the point is put before the last \<open>f\<close>. From \<open>10\<^sup>2\<^sup>1\<close> on,
  JavaScript returns the number's string in exponent notation, which has no
  counterpart for exact reals: that branch is left unspecified.
\<close>

definition fixedDigits :: "real \<Rightarrow> nat \<Rightarrow> string" where
  "fixedDigits x f =
     (let n = nat \<lfloor>x * 10 ^ f + 1 / 2\<rfloor>;
          m = decimalString n;
          k = length m;
          m' = (if k \<le> f then replicate (f + 1 - k) CHR ''0'' @ m else m);
          k' = length m'
      in if f = 0 then m
         else take (k' - f) m' @ ''.'' @ drop (k' - f) m')"

fun toFixed :: "jsnum \<Rightarrow> nat \<Rightarrow> string" where
  "toFixed NaN f = ''NaN''"
| "toFixed PInf f = ''Infinity''"
| "toFixed NInf f = ''-Infinity''"
| "toFixed (Fin x) f =
     (if 10 ^ 21 \<le> \<bar>x\<bar> then undefined
      else if x < 0 then ''-'' @ fixedDigits (- x) f
      else fixedDigits x f)"

section \<open>The server\<close>

subsection \<open>Data\<close>

text \<open>
  A stored user. Its \<open>id\<close> is the string of the clock reading at signup; the other
  fields are the request's values as they came.
\<close>

record user =
  id' :: string
  email :: jsval
  password :: jsval
  name :: jsval

text \<open>
  The three fields that a stored ride and a search match share, then the ride and
  the match as extensions.
\<close>

record rideInfo =
  transportMode :: jsval
  destination :: jsval
  passengers :: jsnum

record rideRequest = rideInfo +
  rideId :: string
  userId :: jsval
  lat :: jsnum
  lng :: jsnum
  timestamp :: nat

record match = rideInfo +
  distanceKm :: string

text \<open>The two arrays of the module.\<close>

record server =
  users :: "user list"
  rides :: "rideRequest list"

definition init :: server where
  "init = \<lparr>users = [], rides = []\<rparr>"

text \<open>The JSON bodies that the handlers send, and a response as status and body.\<close>

datatype body =
    ErrorBody string
  | SignupBody string string jsval
  | LoginBody string string jsval
  | PublishBody string string
  | SearchBody "match list"

type_synonym response = "nat \<times> body"

subsection \<open>POST /api/signup\<close>

text \<open>\<open>now\<close> is the reading of \<open>Date.now()\<close>, in milliseconds.\<close>

definition signup :: "nat \<Rightarrow> jsval \<Rightarrow> jsval \<Rightarrow> jsval \<Rightarrow> server \<Rightarrow> response \<times> server" where
  "signup now b_email b_password b_name s =
     (if \<not> truthy b_email \<or> \<not> truthy b_password \<or> \<not> truthy b_name then
        ((400, ErrorBody ''All fields (name, email, password) are required.''), s)
      else
        (case find (\<lambda>u. strict_eq (email u) b_email) (users s) of
           Some existingUser \<Rightarrow>
             ((409, ErrorBody ''User already exists with this email.''), s)
         | None \<Rightarrow>
             (let newUser = \<lparr>id' = decimalString now, email = b_email,
                             password = b_password, name = b_name\<rparr>
              in ((201, SignupBody ''Registration successful'' (id' newUser) (name newUser)),
                  s\<lparr>users := users s @ [newUser]\<rparr>))))"

subsection \<open>POST /api/login\<close>

definition login :: "jsval \<Rightarrow> jsval \<Rightarrow> server \<Rightarrow> response \<times> server" where
  "login b_email b_password s =
     (case find (\<lambda>u. strict_eq (email u) b_email \<and> strict_eq (password u) b_password)
             (users s) of
        None \<Rightarrow> ((401, ErrorBody ''Invalid email or password.''), s)
      | Some u \<Rightarrow> ((200, LoginBody ''Login successful'' (id' u) (name u)), s))"

subsection \<open>POST /api/rides\<close>

text \<open>\<open>now\<close> is the reading of \<open>Date.now()\<close> and \<open>date\<close> that of \<open>new Date()\<close>.\<close>

definition publishRide ::
  "nat \<Rightarrow> nat \<Rightarrow> jsval \<Rightarrow> jsval \<Rightarrow> jsval \<Rightarrow> jsval \<Rightarrow> jsval \<Rightarrow> jsval \<Rightarrow> server
     \<Rightarrow> response \<times> server" where
  "publishRide now date b_token b_lat b_lng b_transportMode b_passengers b_destination s =
     (if \<not> truthy b_token \<or> \<not> truthy b_lat \<or> \<not> truthy b_lng then
        ((400, ErrorBody ''Missing ride details (location or user token).''), s)
      else
        (let rideRequest = \<lparr>transportMode = b_transportMode,
                             destination = b_destination,
                             passengers = parseInt b_passengers,
                             rideId = decimalString now,
                             userId = b_token,
                             lat = parseFloat b_lat,
                             lng = parseFloat b_lng,
                             timestamp = date\<rparr>
         in ((201, PublishBody ''Ride request published successfully'' (rideId rideRequest)),
             s\<lparr>rides := rides s @ [rideRequest]\<rparr>)))"

subsection \<open>GET /api/rides/search\<close>

definition SEARCH_RADIUS_KM :: jsnum where
  "SEARCH_RADIUS_KM = Fin 10"

text \<open>The two local lists of the handler: the filtered rides, and what is sent of them.\<close>

definition matches :: "jsval \<Rightarrow> jsnum \<Rightarrow> jsnum \<Rightarrow> rideRequest list \<Rightarrow> rideRequest list" where
  "matches q_userId userLat userLng rs =
     filter (\<lambda>ride.
        if truthy q_userId \<and> strict_eq (userId ride) q_userId then False
        else js_le (getDistanceFromLatLonInKm userLat userLng (lat ride) (lng ride))
               SEARCH_RADIUS_KM) rs"

definition responseMatches :: "jsnum \<Rightarrow> jsnum \<Rightarrow> rideRequest list \<Rightarrow> match list" where
  "responseMatches userLat userLng ms =
     map (\<lambda>m. \<lparr>transportMode = transportMode m,
                destination = destination m,
                passengers = passengers m,
                distanceKm =
                  toFixed (getDistanceFromLatLonInKm userLat userLng (lat m) (lng m)) 2\<rparr>) ms"

definition searchRides :: "jsval \<Rightarrow> jsval \<Rightarrow> jsval \<Rightarrow> server \<Rightarrow> response \<times> server" where
  "searchRides q_lat q_lng q_userId s =
     (if \<not> truthy q_lat \<or> \<not> truthy q_lng then
        ((400, ErrorBody ''Latitude and Longitude required for search.''), s)
      else
        (let userLat = parseFloat q_lat;
             userLng = parseFloat q_lng
         in ((200, SearchBody (responseMatches userLat userLng
                                 (matches q_userId userLat userLng (rides s)))), s)))"

subsection \<open>Runs of the server\<close>

text \<open>A request as the server receives it, with the clock readings its handler makes.\<close>

datatype request =
    Signup nat jsval jsval jsval
  | Login jsval jsval
  | PublishRide nat nat jsval jsval jsval jsval jsval jsval
  | SearchRides jsval jsval jsval

fun handle :: "request \<Rightarrow> server \<Rightarrow> response \<times> server" where
  "handle (Signup now e p n) s = signup now e p n s"
| "handle (Login e p) s = login e p s"
| "handle (PublishRide now date t la lo tm pa de) s = publishRide now date t la lo tm pa de s"
| "handle (SearchRides la lo u) s = searchRides la lo u s"

text \<open>The states that the server passes through, from the two empty arrays.\<close>

inductive reachable :: "server \<Rightarrow> bool" where
  reachable_init: "reachable init"
| reachable_step: "reachable s \<Longrightarrow> reachable (snd (handle req s))"


section \<open>Auxiliary notions for the proofs\<close>

fun is_Fin :: "jsnum \<Rightarrow> bool" where
  "is_Fin (Fin x) = True"
| "is_Fin _ = False"

text \<open>The value of the local \<open>a\<close> of the distance function on finite arguments.\<close>

definition hav_a :: "real \<Rightarrow> real \<Rightarrow> real \<Rightarrow> real \<Rightarrow> real" where
  "hav_a lat1 lon1 lat2 lon2 =
     sin ((lat2 - lat1) * (pi / 180) / 2) * sin ((lat2 - lat1) * (pi / 180) / 2)
     + cos (lat1 * (pi / 180)) * cos (lat2 * (pi / 180))
       * sin ((lon2 - lon1) * (pi / 180) / 2) * sin ((lon2 - lon1) * (pi / 180) / 2)"

text \<open>What \<open>Number.isInteger\<close> tests.\<close>

fun is_integer :: "jsnum \<Rightarrow> bool" where
  "is_integer (Fin x) = (of_int \<lfloor>x\<rfloor> = x)"
| "is_integer _ = False"

text \<open>No two users of the list have emails that \<open>===\<close> identifies.\<close>

fun unique_emails :: "user list \<Rightarrow> bool" where
  "unique_emails [] = True"
| "unique_emails (u # us) =
     ((\<forall>v \<in> set us. \<not> strict_eq (email v) (email u)) \<and> unique_emails us)"

text \<open>What every reachable state satisfies: rides have an owner, emails are unique.\<close>

definition invariant :: "server \<Rightarrow> bool" where
  "invariant s = ((\<forall>r \<in> set (rides s). truthy (userId r)) \<and> unique_emails (users s))"

text \<open>Two rides and a user for the concrete runs below.\<close>

definition ride1 :: rideRequest where
  "ride1 = \<lparr>transportMode = String ''DRIVER'', destination = String ''Mall'',
             passengers = Fin 3, rideId = ''1000'', userId = String ''u1'',
             lat = Fin 1, lng = Fin 2, timestamp = 1001\<rparr>"

definition ride2 :: rideRequest where
  "ride2 = \<lparr>transportMode = String ''RIDER'', destination = String ''Station'',
             passengers = Fin 1, rideId = ''2000'', userId = String ''u2'',
             lat = Fin 1, lng = Fin 2, timestamp = 2001\<rparr>"

definition user1 :: user where
  "user1 = \<lparr>id' = ''1000'', email = String ''a@x.org'', password = String ''pw1'',
             name = String ''Ann''\<rparr>"

section \<open>Properties of the distance function\<close>

lemma hav_a_sym: "hav_a a b c d = hav_a c d a b"
proof -
  have 1: "sin ((a - c) * (pi / 180) / 2) = - sin ((c - a) * (pi / 180) / 2)"
    by (metis minus_diff_eq mult_minus_left minus_divide_left sin_minus)
  have 2: "sin ((b - d) * (pi / 180) / 2) = - sin ((d - b) * (pi / 180) / 2)"
    by (metis minus_diff_eq mult_minus_left minus_divide_left sin_minus)
  show ?thesis
    unfolding hav_a_def 1 2 by (simp add: mult.commute)
qed

lemma hav_a_self: "hav_a a b a b = 0"
  by (simp add: hav_a_def)

lemma half_minus_bounds:
  "- 1 \<le> (t::real) \<Longrightarrow> t \<le> 1 \<Longrightarrow> 0 \<le> (1 - t) / 2 \<and> (1 - t) / 2 \<le> 1"
  by simp

lemma half_plus_bounds:
  "- 1 \<le> (t::real) \<Longrightarrow> t \<le> 1 \<Longrightarrow> 0 \<le> (1 + t) / 2 \<and> (1 + t) / 2 \<le> 1"
  by simp

text \<open>
  \<open>a\<close> lies between 0 and 1 for all finite arguments, also for latitudes outside
  \<open>[-90, 90]\<close>: it is a convex combination of \<open>sin\<^sup>2 ((v - u) / 2)\<close> and
  \<open>cos\<^sup>2 ((u + v) / 2)\<close>.
\<close>

lemma hav_a_bounds: "0 \<le> hav_a a b c d \<and> hav_a a b c d \<le> 1"
proof -
  define u where "u = a * (pi / 180)"
  define v where "v = c * (pi / 180)"
  define p where "p = sin ((c - a) * (pi / 180) / 2) * sin ((c - a) * (pi / 180) / 2)"
  define q where "q = cos u * cos v"
  define s where "s = sin ((d - b) * (pi / 180) / 2) * sin ((d - b) * (pi / 180) / 2)"
  have h: "hav_a a b c d = p + q * s"
    by (simp add: hav_a_def p_def q_def s_def u_def v_def)
  have s01: "0 \<le> s" "s \<le> 1"
    using sin_le_one [of "(d - b) * (pi / 180) / 2"]
      sin_ge_minus_one [of "(d - b) * (pi / 180) / 2"]
    by (auto simp: s_def power2_eq_square [symmetric]
        abs_le_square_iff [of _ 1, simplified, symmetric] abs_le_iff)
  define w where "w = (v - u) / 2"
  have vu: "v - u = 2 * w"
    by (simp add: w_def)
  have "(c - a) * (pi / 180) / 2 = w"
    by (simp add: u_def v_def w_def left_diff_distrib)
  then have "p = (sin w)\<^sup>2"
    unfolding p_def power2_eq_square by (simp only:)
  also have "\<dots> = (1 - cos (2 * w)) / 2"
    by (simp add: cos_double_sin)
  finally have p: "p = (1 - cos (v - u)) / 2"
    by (simp only: vu)
  have p01: "0 \<le> p \<and> p \<le> 1"
    unfolding p by (rule half_minus_bounds) simp_all
  have pq: "p + q = (1 + cos (u + v)) / 2"
    by (simp add: p q_def cos_diff cos_add field_simps)
  have pq01: "0 \<le> p + q \<and> p + q \<le> 1"
    unfolding pq by (rule half_plus_bounds) simp_all
  have conv: "p + q * s = (1 - s) * p + s * (p + q)"
    by (simp add: algebra_simps)
  have l1: "0 \<le> (1 - s) * p"
    using s01 p01 by (intro mult_nonneg_nonneg) simp_all
  have l2: "0 \<le> s * (p + q)"
    using s01 pq01 by (intro mult_nonneg_nonneg) simp_all
  have u1: "(1 - s) * p \<le> (1 - s) * 1"
    using s01 p01 by (intro mult_left_mono) simp_all
  have u2: "s * (p + q) \<le> s * 1"
    using s01 pq01 by (intro mult_left_mono) simp_all
  from l1 l2 u1 u2
  have "0 \<le> (1 - s) * p + s * (p + q) \<and> (1 - s) * p + s * (p + q) \<le> 1"
    by simp
  then show ?thesis by (simp only: h conv)
qed

lemma atan2_quadrant: "0 \<le> y \<Longrightarrow> 0 \<le> x \<Longrightarrow> 0 \<le> atan2 y x \<and> atan2 y x \<le> pi / 2"
proof (cases "0 < x")
  case True
  assume "0 \<le> y"
  with True have "0 \<le> y / x" by simp
  then have "0 \<le> arctan (y / x)" by (simp add: arctan_monotone' [of 0, simplified])
  moreover have "arctan (y / x) \<le> pi / 2" using arctan_ubound [of "y / x"] by simp
  ultimately show ?thesis using True by (simp add: atan2_def)
next
  case False
  assume "0 \<le> y" "0 \<le> x"
  with False have "x = 0" by simp
  then show ?thesis using \<open>0 \<le> y\<close> by (auto simp: atan2_def)
qed

text \<open>On finite arguments the distance is finite, computed from \<open>a\<close>.\<close>

lemma distance_Fin:
  "getDistanceFromLatLonInKm (Fin a) (Fin b) (Fin c) (Fin d) =
     Fin (6371 * (2 * atan2 (sqrt (hav_a a b c d)) (sqrt (1 - hav_a a b c d))))"
proof -
  have "getDistanceFromLatLonInKm (Fin a) (Fin b) (Fin c) (Fin d) =
     js_mul (Fin 6371) (js_mul (Fin 2)
       (Math_atan2 (Math_sqrt (Fin (hav_a a b c d))) (Math_sqrt (Fin (1 - hav_a a b c d)))))"
    unfolding getDistanceFromLatLonInKm_def deg2rad_def js_sub_def Math_PI_def Let_def hav_a_def
    by (simp only: js_neg.simps js_add.simps js_mul.simps js_div.simps Math_sin.simps
        Math_cos.simps diff_conv_add_uminus) simp
  then show ?thesis
    using hav_a_bounds [of a b c d] by simp
qed

text \<open>As soon as one argument is not finite, the distance is \<open>NaN\<close>.\<close>

lemma distance_NaN:
  "\<not> (is_Fin a \<and> is_Fin b \<and> is_Fin c \<and> is_Fin d) \<Longrightarrow>
   getDistanceFromLatLonInKm a b c d = NaN"
  by (cases a; cases b; cases c; cases d)
    (simp_all add: getDistanceFromLatLonInKm_def deg2rad_def js_sub_def Math_PI_def Let_def)

lemma distance_range:
  "getDistanceFromLatLonInKm a b c d = NaN \<or>
   (\<exists>x. getDistanceFromLatLonInKm a b c d = Fin x \<and> 0 \<le> x \<and> x \<le> 6371 * pi)"
proof (cases "is_Fin a \<and> is_Fin b \<and> is_Fin c \<and> is_Fin d")
  case True
  then obtain a' b' c' d' where eq: "a = Fin a'" "b = Fin b'" "c = Fin c'" "d = Fin d'"
    by (cases a; cases b; cases c; cases d) auto
  have "0 \<le> sqrt (hav_a a' b' c' d')" "0 \<le> sqrt (1 - hav_a a' b' c' d')"
    using hav_a_bounds [of a' b' c' d'] by simp_all
  from atan2_quadrant [OF this]
  show ?thesis by (simp add: eq distance_Fin)
next
  case False
  then show ?thesis by (simp add: distance_NaN)
qed

lemma distance_sym:
  "getDistanceFromLatLonInKm a b c d = getDistanceFromLatLonInKm c d a b"
proof (cases "is_Fin a \<and> is_Fin b \<and> is_Fin c \<and> is_Fin d")
  case True
  then obtain a' b' c' d' where "a = Fin a'" "b = Fin b'" "c = Fin c'" "d = Fin d'"
    by (cases a; cases b; cases c; cases d) auto
  then show ?thesis
    by (simp only: distance_Fin hav_a_sym [of a' b' c' d'])
next
  case False
  then have "\<not> (is_Fin c \<and> is_Fin d \<and> is_Fin a \<and> is_Fin b)" by blast
  from distance_NaN [OF False] distance_NaN [OF this] show ?thesis by simp
qed

lemma distance_self: "getDistanceFromLatLonInKm (Fin a) (Fin b) (Fin a) (Fin b) = Fin 0"
  by (simp add: distance_Fin hav_a_self atan2_def)

text \<open>
  Claim C6. The haversine distance is symmetric: the distance from A to B is the
  distance from B to A, for all numbers, the special values included.
\<close>

theorem getDistanceFromLatLonInKm_symmetric:
  "getDistanceFromLatLonInKm lat1 lon1 lat2 lon2 = getDistanceFromLatLonInKm lat2 lon2 lat1 lon1"
  by (rule distance_sym)

text \<open>
  Claim C7. The haversine distance from a point to itself is 0, for every point with
  finite latitude and longitude.
\<close>

theorem getDistanceFromLatLonInKm_self:
  "getDistanceFromLatLonInKm (Fin p_lat) (Fin p_lng) (Fin p_lat) (Fin p_lng) = Fin 0"
  by (rule distance_self)

section \<open>Values and strings\<close>

lemma strict_eq_truthy: "strict_eq a b \<Longrightarrow> truthy a = truthy b"
  by (cases a; cases b) auto

lemma strict_eq_sym: "strict_eq a b \<Longrightarrow> strict_eq b a"
  by (cases a; cases b) auto

lemma strict_eq_trans: "strict_eq a b \<Longrightarrow> strict_eq b c \<Longrightarrow> strict_eq a c"
  by (cases a; cases b; cases c) auto

text \<open>Within \<open>2\<^sup>-\<^sup>1\<^sup>0\<^sup>0\<^sup>0\<close> and \<open>2\<^sup>1\<^sup>0\<^sup>0\<^sup>0\<close> in magnitude, and at 0, a real is its Number value.\<close>

lemma numberValue_Fin:
  assumes "\<bar>x\<bar> < 2 ^ 1000" "x = 0 \<or> 1 / 2 ^ 1000 \<le> \<bar>x\<bar>"
  shows "numberValue x = Fin x"
proof -
  have big: "(2::real) ^ 1000 \<le> 2 ^ 1024 - 2 ^ 970" by simp
  have small: "(1::real) / 2 ^ 1075 < 1 / 2 ^ 1000" by simp
  from assms big small show ?thesis
    unfolding numberValue_def by (cases "x = 0") (simp, auto)
qed

lemma numberValue_nat: "n < 2 ^ 100 \<Longrightarrow> numberValue (real n) = Fin (real n)"
proof (rule numberValue_Fin)
  assume n: "n < 2 ^ 100"
  then have "real n < 2 ^ 100"
    by (metis of_nat_less_iff of_nat_numeral of_nat_power)
  moreover have "(2::real) ^ 100 < 2 ^ 1000" by simp
  ultimately show "\<bar>real n\<bar> < 2 ^ 1000" by simp
  have "(1::real) / 2 ^ 1000 \<le> 1" by simp
  moreover have "n \<noteq> 0 \<Longrightarrow> 1 \<le> real n" by simp
  ultimately show "real n = 0 \<or> 1 / 2 ^ 1000 \<le> \<bar>real n\<bar>"
    by (cases "n = 0") auto
qed

lemma numberValue_int:
  "numberValue (of_int k) = PInf \<or> numberValue (of_int k) = NInf
   \<or> is_integer (numberValue (of_int k))"
  by (simp add: numberValue_def)

lemmas parse_defs = parseFloat_str_def parseInt_str_def strip_sign_def isWhiteSpace_def
  isDecimalDigit_def digitsValue_def radixDigit_def exponentPart_def

lemma parse12: "parseFloat_str ''1'' = Fin 1" "parseFloat_str ''2'' = Fin 2"
  using numberValue_nat [of 1] numberValue_nat [of 2] by (simp_all add: parse_defs)

lemma parseInt_str_3: "parseInt_str ''3'' = Fin 3"
  using numberValue_nat [of 3] by (simp add: parse_defs)

lemma parseInt_str_1: "parseInt_str ''1'' = Fin 1"
  using numberValue_nat [of 1] by (simp add: parse_defs)

text \<open>A run of nines beyond the doubles: \<open>parseInt\<close> reads it as \<open>Infinity\<close>.\<close>

lemma digitsValue_nines: "digitsValue 10 (replicate n CHR ''9'') = 10 ^ n - 1"
proof (induction n)
  case 0
  show ?case by (simp add: digitsValue_def)
next
  case (Suc n)
  have nine: "radixDigit 10 CHR ''9'' = Some 9"
    by (simp add: radixDigit_def)
  have "digitsValue 10 (replicate (Suc n) CHR ''9'')
      = digitsValue 10 (replicate n CHR ''9'' @ [CHR ''9''])"
    by (simp only: replicate_append_same replicate_Suc)
  also have "\<dots> = digitsValue 10 (replicate n CHR ''9'') * 10 + 9"
    by (simp add: digitsValue_def nine)
  also have "\<dots> = (10 ^ n - 1) * 10 + 9"
    by (simp only: Suc.IH)
  also have "\<dots> = 10 ^ Suc n - 1"
  proof -
    have "(1::nat) \<le> 10 ^ n" by simp
    then show ?thesis by (simp add: diff_mult_distrib)
  qed
  finally show ?case .
qed

lemma parseInt_str_nines: "parseInt_str (replicate 400 CHR ''9'') = PInf"
proof -
  define S where "S = replicate 400 CHR ''9''"
  have S: "S = CHR ''9'' # replicate 399 CHR ''9''"
    unfolding S_def by (simp only: replicate_Suc [symmetric]) simp
  have nine: "radixDigit 10 CHR ''9'' \<noteq> None" "\<not> isWhiteSpace CHR ''9''"
    by (simp_all add: radixDigit_def isWhiteSpace_def)
  have S_ws: "dropWhile isWhiteSpace S = S"
    using nine by (simp add: S)
  have S_sign: "strip_sign S = (False, S)"
    by (simp add: S strip_sign_def)
  have S_hex: "take 2 S \<noteq> ''0x''" "take 2 S \<noteq> ''0X''"
    by (simp_all add: S)
  have S_tw: "takeWhile (\<lambda>c. \<exists>y. radixDigit 10 c = Some y) S = S"
    using nine by (simp add: S_def)
  have S_ne: "S \<noteq> []" by (simp add: S)
  have "real (digitsValue 10 S) = 10 ^ 400 - 1"
    unfolding S_def digitsValue_nines by (simp add: of_nat_diff)
  moreover have "(2::real) ^ 1024 - 2 ^ 970 \<le> 10 ^ 400 - 1" by simp
  ultimately have nv: "numberValue (real (digitsValue 10 S)) = PInf"
    by (simp add: numberValue_def)
  have "parseInt_str S = PInf"
    unfolding parseInt_str_def S_ws S_sign
    by (simp add: S_hex S_tw S_ne nv Let_def)
  then show ?thesis by (simp only: S_def)
qed

text \<open>
  \<open>parseInt\<close> returns an integer, \<open>NaN\<close> or an infinity, whatever it is given.
\<close>

lemma parseInt_str_range:
  "parseInt_str s = NaN \<or> parseInt_str s = PInf \<or> parseInt_str s = NInf
   \<or> is_integer (parseInt_str s)"
proof -
  have "\<And>n. numberValue (real n) = numberValue (of_int (int n))"
    "\<And>n. numberValue (- real n) = numberValue (of_int (- int n))"
    by simp_all
  then show ?thesis
    unfolding parseInt_str_def Let_def
    by (auto simp only: numberValue_int split: prod.splits if_splits)
qed

lemma parseInt_range:
  "parseInt v = NaN \<or> parseInt v = PInf \<or> parseInt v = NInf \<or> is_integer (parseInt v)"
proof (cases v)
  case (Number n)
  then show ?thesis by (cases n) (simp_all add: parseInt_num_def Let_def)
next
  case (String s)
  then show ?thesis using parseInt_str_range [of s] by simp
next
  case (Object a s)
  then show ?thesis using parseInt_str_range [of s] by simp
qed simp_all

subsection \<open>Decimal digits\<close>

lemma of_char_digitChar: "d < 10 \<Longrightarrow> (of_char (digitChar d) :: nat) = 48 + d"
  by (simp add: digitChar_def)

lemma isDecimalDigit_digitChar: "d < 10 \<Longrightarrow> isDecimalDigit (digitChar d)"
  by (simp add: isDecimalDigit_def of_char_digitChar)

lemma radixDigit_digitChar: "d < 10 \<Longrightarrow> radixDigit 10 (digitChar d) = Some d"
  by (simp add: radixDigit_def of_char_digitChar)

lemma digitChar_0: "digitChar 0 = CHR ''0''"
  by code_simp

lemma isDecimalDigit_plain:
  "isDecimalDigit c \<Longrightarrow>
   \<not> isWhiteSpace c \<and> c \<noteq> CHR ''-'' \<and> c \<noteq> CHR ''+'' \<and> c \<noteq> CHR ''I'' \<and> c \<noteq> CHR ''.''"
  by (auto simp: isDecimalDigit_def isWhiteSpace_def)

lemma decimalString_small: "n < 10 \<Longrightarrow> decimalString n = [digitChar n]"
  by (subst decimalString.simps) simp

lemma decimalString_step:
  "10 \<le> n \<Longrightarrow> decimalString n = decimalString (n div 10) @ [digitChar (n mod 10)]"
  by (subst decimalString.simps) simp

lemma decimalString_0: "decimalString 0 = [digitChar 0]"
  by (rule decimalString_small) simp

lemma decimalString_1000: "decimalString 1000 = ''1000''"
  by code_simp

lemma decimalString_2000: "decimalString 2000 = ''2000''"
  by code_simp

lemma decimalString_digits: "\<forall>c \<in> set (decimalString n). isDecimalDigit c"
  by (induction n rule: decimalString.induct)
     (subst decimalString.simps, simp add: isDecimalDigit_digitChar)

lemma decimalString_nonempty: "decimalString n \<noteq> []"
  by (subst decimalString.simps) simp

lemma digitsValue_snoc:
  "d < 10 \<Longrightarrow> digitsValue 10 (ds @ [digitChar d]) = digitsValue 10 ds * 10 + d"
  by (simp add: digitsValue_def radixDigit_digitChar)

text \<open>Reading the digits of a number gives the number back.\<close>

lemma digitsValue_decimalString: "digitsValue 10 (decimalString n) = n"
proof (induction n rule: decimalString.induct)
  case (1 n)
  show ?case
  proof (cases "n < 10")
    case True
    then show ?thesis
      by (simp add: decimalString_small digitsValue_def radixDigit_digitChar)
  next
    case False
    with 1 have "digitsValue 10 (decimalString (n div 10)) = n div 10" by simp
    with False show ?thesis
      by (simp add: decimalString_step digitsValue_snoc)
  qed
qed

lemma decimalString_hundreds:
  "decimalString n =
     (if n < 10 then [digitChar n]
      else if n < 100 then [digitChar (n div 10), digitChar (n mod 10)]
      else decimalString (n div 100) @ [digitChar (n div 10 mod 10), digitChar (n mod 10)])"
proof -
  consider "n < 10" | "10 \<le> n" "n < 100" | "100 \<le> n" by linarith
  then show ?thesis
  proof cases
    case 1
    then show ?thesis using decimalString_small [of n] by simp
  next
    case 2
    then have "n div 10 < 10" by simp
    from decimalString_step [OF 2(1)] decimalString_small [OF this] 2
    show ?thesis by simp
  next
    case 3
    then have "10 \<le> n div 10" "10 \<le> n" by simp_all
    from decimalString_step [OF this(1)] decimalString_step [OF this(2)]
    have "decimalString n
      = (decimalString (n div 10 div 10) @ [digitChar (n div 10 mod 10)]) @ [digitChar (n mod 10)]"
      by (simp only:)
    moreover have "n div 10 div 10 = n div 100" by (simp add: div_mult2_eq)
    ultimately show ?thesis using 3 by simp
  qed
qed

subsection \<open>Two fraction digits\<close>

text \<open>
  With two fraction digits, \<open>toFixed\<close> writes the digits of the hundreds of \<open>n\<close>, the
  point, and the tens and units of \<open>n\<close>, where \<open>n\<close> is the number of hundredths
  nearest to \<open>x\<close>.
\<close>

lemma fixedDigits_2:
  "fixedDigits x 2 =
     (let n = nat \<lfloor>x * 100 + 1 / 2\<rfloor>
      in decimalString (n div 100) @ ''.'' @ [digitChar (n div 10 mod 10), digitChar (n mod 10)])"
proof -
  define n where "n = nat \<lfloor>x * 100 + 1 / 2\<rfloor>"
  have z: "CHR ''0'' = digitChar 0" by (simp add: digitChar_0)
  consider "n < 10" | "10 \<le> n" "n < 100" | "100 \<le> n" by linarith
  then have "(let m = decimalString n; k = length m;
          m' = (if k \<le> 2 then replicate (2 + 1 - k) CHR ''0'' @ m else m);
          k' = length m'
      in take (k' - 2) m' @ ''.'' @ drop (k' - 2) m')
     = decimalString (n div 100) @ ''.'' @ [digitChar (n div 10 mod 10), digitChar (n mod 10)]"
  proof cases
    case 1
    then show ?thesis
      by (simp add: decimalString_hundreds [of n] decimalString_0 z numeral_2_eq_2)
  next
    case 2
    then show ?thesis
      by (simp add: decimalString_hundreds [of n] decimalString_0 z)
  next
    case 3
    then have "0 < length (decimalString (n div 100))"
      using decimalString_nonempty by blast
    with 3 show ?thesis
      by (simp add: decimalString_hundreds [of n] Let_def)
  qed
  then show ?thesis
    by (simp add: fixedDigits_def n_def Let_def)
qed

lemma toFixed_2_format:
  assumes "0 \<le> x" "x < 10 ^ 21"
  shows "toFixed (Fin x) 2 =
     decimalString (nat \<lfloor>x * 100 + 1 / 2\<rfloor> div 100) @ ''.'' @
       [digitChar (nat \<lfloor>x * 100 + 1 / 2\<rfloor> div 10 mod 10),
        digitChar (nat \<lfloor>x * 100 + 1 / 2\<rfloor> mod 10)]"
  using assms by (simp add: fixedDigits_2 Let_def)

text \<open>\<open>parseFloat\<close> reads such a string as the integer part plus the hundredths.\<close>

lemma parseFloat_str_fixed:
  assumes "a < 10" "b < 10" "q < 2 ^ 100"
  shows "parseFloat_str (decimalString q @ ''.'' @ [digitChar a, digitChar b])
         = Fin (real q + real (a * 10 + b) / 100)"
proof -
  define S where "S = decimalString q @ ''.'' @ [digitChar a, digitChar b]"
  define F where "F = [digitChar a, digitChar b]"
  obtain c cs where ds: "decimalString q = c # cs"
    using decimalString_nonempty [of q] by (cases "decimalString q") auto
  have S: "S = c # (cs @ CHR ''.'' # F)" "S = (c # cs) @ CHR ''.'' # F"
    by (simp_all add: S_def F_def ds)
  have dig: "\<forall>x \<in> set (c # cs). isDecimalDigit x"
    using decimalString_digits [of q] by (simp only: ds)
  then have c: "\<not> isWhiteSpace c" "c \<noteq> CHR ''-''" "c \<noteq> CHR ''+''" "c \<noteq> CHR ''I''"
    using isDecimalDigit_plain [of c] by simp_all
  have dot: "\<not> isDecimalDigit CHR ''.''"
    by (simp add: isDecimalDigit_def)
  have S_ws: "dropWhile isWhiteSpace S = S"
    using c by (simp add: S(1))
  have S_sign: "strip_sign S = (False, S)"
    using c by (simp add: S(1) strip_sign_def)
  have S_inf: "take 8 S \<noteq> ''Infinity''"
    using c by (simp add: S(1))
  have S_tw: "takeWhile isDecimalDigit S = c # cs"
    using dig unfolding S(2)
    by (simp only: takeWhile_tail [of isDecimalDigit "CHR ''.''", OF dot]
        takeWhile_eq_all_conv [THEN iffD2])
  have S_dw: "dropWhile isDecimalDigit S = CHR ''.'' # F"
    using dig dot unfolding S(2) by (subst dropWhile_append2) auto
  have F: "takeWhile isDecimalDigit F = F" "dropWhile isDecimalDigit F = []" "length F = 2"
    using assms by (simp_all add: F_def isDecimalDigit_digitChar)
  have v1: "digitsValue 10 (c # cs) = q"
    using digitsValue_decimalString [of q] by (simp only: ds)
  have v2: "digitsValue 10 F = a * 10 + b"
    using assms by (simp add: F_def digitsValue_def radixDigit_digitChar)
  have F_ne: "F \<noteq> []" by (simp add: F_def)
  define v where "v = real q + real (a * 10 + b) / 100"
  have nv: "numberValue v = Fin v"
  proof (rule numberValue_Fin)
    from assms(3) have "real q < 2 ^ 100"
      by (metis of_nat_less_iff of_nat_numeral of_nat_power)
    moreover from assms(1,2) have "real (a * 10 + b) / 100 < 1" by simp
    ultimately have "v < 2 ^ 100 + 1"
      unfolding v_def by (rule add_strict_mono)
    moreover have "(2::real) ^ 100 + 1 < 2 ^ 1000" by simp
    moreover have "0 \<le> v" by (simp add: v_def)
    ultimately show "\<bar>v\<bar> < 2 ^ 1000" by (simp only: abs_of_nonneg less_trans)
    show "v = 0 \<or> 1 / 2 ^ 1000 \<le> \<bar>v\<bar>"
    proof (cases "q = 0 \<and> a * 10 + b = 0")
      case True
      then show ?thesis by (simp add: v_def)
    next
      case False
      then have "1 \<le> q \<or> 1 \<le> a * 10 + b" by linarith
      then have "1 \<le> real q \<or> 1 \<le> real (a * 10 + b)"
        by (metis of_nat_1 of_nat_le_iff)
      moreover define x y where "x = real q" and "y = real (a * 10 + b)"
      moreover have "0 \<le> x" "0 \<le> y" by (simp_all add: x_def y_def)
      ultimately have "1 / 100 \<le> x + y / 100" by linarith
      then have "1 / 100 \<le> v" by (simp only: v_def x_def y_def)
      moreover have "(1::real) / 2 ^ 1000 \<le> 1 / 100" by simp
      ultimately show ?thesis by simp
    qed
  qed
  have "parseFloat_str S = numberValue v"
    unfolding parseFloat_str_def S_ws S_sign v_def
    by (simp add: S_inf S_tw S_dw F v1 v2 F_ne exponentPart_def Let_def)
  then show ?thesis by (simp only: S_def nv [unfolded v_def] v_def)
qed

lemma tens_units: "n div 10 mod 10 * 10 + n mod 10 = n mod 100" for n :: nat
proof -
  have "n mod 100 = n mod 10 + 10 * (n div 10 mod 10)"
    using mod_mult2_eq [of n 10 10] by simp
  then show ?thesis by simp
qed

lemma hundreds_rest: "real (n div 100) * 100 + real (n mod 100) = real n"
proof -
  have "real (n div 100 * 100 + n mod 100) = real n" by simp
  then show ?thesis by (simp only: of_nat_add of_nat_mult of_nat_numeral)
qed

lemma hundredths:
  "real (n div 100) + real (n div 10 mod 10 * 10 + n mod 10) / 100 = real n / 100"
proof -
  have "real (n div 100) + real (n mod 100) / 100 = real n / 100"
    using hundreds_rest [of n] by (simp add: field_simps)
  then show ?thesis by (simp only: tens_units)
qed

text \<open>What \<open>toFixed(2)\<close> writes reads back as the nearest number of hundredths.\<close>

lemma toFixed_2_reads_back:
  assumes "0 \<le> x" "x < 10 ^ 21"
  shows "parseFloat_str (toFixed (Fin x) 2) = Fin (real_of_int \<lfloor>x * 100 + 1 / 2\<rfloor> / 100)"
proof -
  define n where "n = nat \<lfloor>x * 100 + 1 / 2\<rfloor>"
  from assms have "0 \<le> \<lfloor>x * 100 + 1 / 2\<rfloor>" by simp
  then have n: "real n = real_of_int \<lfloor>x * 100 + 1 / 2\<rfloor>" by (simp add: n_def)
  from assms have "toFixed (Fin x) 2 = fixedDigits x 2" by simp
  also have "\<dots> =
      decimalString (n div 100) @ ''.'' @ [digitChar (n div 10 mod 10), digitChar (n mod 10)]"
    by (simp add: fixedDigits_2 n_def Let_def)
  finally have "toFixed (Fin x) 2
      = decimalString (n div 100) @ ''.'' @ [digitChar (n div 10 mod 10), digitChar (n mod 10)]" .
  moreover have "n div 10 mod 10 < 10" "n mod 10 < 10" by simp_all
  moreover have "n div 100 < 2 ^ 100"
  proof -
    have "real_of_int \<lfloor>x * 100 + 1 / 2\<rfloor> \<le> x * 100 + 1 / 2" by simp
    with assms(2) n have "real n < 10 ^ 21 * 100 + 1" by simp
    moreover have "(10::real) ^ 21 * 100 + 1 < 2 ^ 100" by simp
    ultimately have "real n < real (2 ^ 100)" by simp
    then have "n < 2 ^ 100" by (simp only: of_nat_less_iff)
    moreover have "n div 100 \<le> n" by simp
    ultimately show ?thesis by simp
  qed
  ultimately have "parseFloat_str (toFixed (Fin x) 2)
      = Fin (real (n div 100) + real (n div 10 mod 10 * 10 + n mod 10) / 100)"
    by (simp only: parseFloat_str_fixed)
  then show ?thesis
    by (simp only: hundredths n)
qed

lemma round_half_up_close: "\<bar>real_of_int \<lfloor>x * 100 + 1 / 2\<rfloor> / 100 - x\<bar> \<le> 1 / 200"
  for x :: real
  by linarith

section \<open>The handlers, case by case\<close>

lemma signup_cases:
  "signup now e p n s =
    (if \<not> truthy e \<or> \<not> truthy p \<or> \<not> truthy n then
       ((400, ErrorBody ''All fields (name, email, password) are required.''), s)
     else if \<exists>u \<in> set (users s). strict_eq (email u) e then
       ((409, ErrorBody ''User already exists with this email.''), s)
     else ((201, SignupBody ''Registration successful'' (decimalString now) n),
           s\<lparr>users := users s @
                [\<lparr>id' = decimalString now, email = e, password = p, name = n\<rparr>]\<rparr>))"
  by (auto simp: signup_def Let_def find_None_iff find_Some_iff split: option.splits)

lemma login_state: "snd (login e p s) = s"
  by (simp add: login_def split: option.splits)

lemma publishRide_cases:
  "publishRide now date t la lo tm pa de s =
    (if \<not> truthy t \<or> \<not> truthy la \<or> \<not> truthy lo then
       ((400, ErrorBody ''Missing ride details (location or user token).''), s)
     else ((201, PublishBody ''Ride request published successfully'' (decimalString now)),
          s\<lparr>rides := rides s @
               [\<lparr>transportMode = tm, destination = de, passengers = parseInt pa,
                 rideId = decimalString now, userId = t, lat = parseFloat la,
                 lng = parseFloat lo, timestamp = date\<rparr>]\<rparr>))"
  by (simp add: publishRide_def Let_def)

lemma searchRides_state: "snd (searchRides la lo u s) = s"
  by (simp add: searchRides_def Let_def)

lemma searchRides_ok:
  "truthy q_lat \<Longrightarrow> truthy q_lng \<Longrightarrow>
   searchRides q_lat q_lng q_userId s =
     ((200, SearchBody (responseMatches (parseFloat q_lat) (parseFloat q_lng)
         (matches q_userId (parseFloat q_lat) (parseFloat q_lng) (rides s)))), s)"
  by (simp add: searchRides_def Let_def)

lemma matches_member:
  "r \<in> set (matches u la lo rs) \<longleftrightarrow>
     r \<in> set rs \<and> \<not> (truthy u \<and> strict_eq (userId r) u)
     \<and> js_le (getDistanceFromLatLonInKm la lo (lat r) (lng r)) (Fin 10)"
  by (auto simp: matches_def SEARCH_RADIUS_KM_def)

lemma matches_NaN: "la = NaN \<or> lo = NaN \<Longrightarrow> matches u la lo rs = []"
  by (auto simp: matches_def distance_NaN)

text \<open>The distance of a matched ride is a finite number between 0 and 10.\<close>

lemma matched_distance:
  assumes "ride \<in> set (matches u la lo rs)"
  shows "\<exists>d. getDistanceFromLatLonInKm la lo (lat ride) (lng ride) = Fin d \<and> 0 \<le> d \<and> d \<le> 10"
proof -
  from assms have le: "js_le (getDistanceFromLatLonInKm la lo (lat ride) (lng ride)) (Fin 10)"
    by (simp add: matches_member)
  from distance_range [of la lo "lat ride" "lng ride"] show ?thesis
  proof
    assume "getDistanceFromLatLonInKm la lo (lat ride) (lng ride) = NaN"
    with le show ?thesis by simp
  next
    assume "\<exists>x. getDistanceFromLatLonInKm la lo (lat ride) (lng ride) = Fin x
      \<and> 0 \<le> x \<and> x \<le> 6371 * pi"
    then obtain x where "getDistanceFromLatLonInKm la lo (lat ride) (lng ride) = Fin x" "0 \<le> x"
      by blast
    with le show ?thesis by simp
  qed
qed

section \<open>Reachable states\<close>

lemma unique_emails_snoc:
  "unique_emails (us @ [n]) =
     (unique_emails us \<and> (\<forall>v \<in> set us. \<not> strict_eq (email n) (email v)))"
  by (induction us) auto

lemma unique_emails_same:
  "unique_emails us \<Longrightarrow> u \<in> set us \<Longrightarrow> v \<in> set us \<Longrightarrow> strict_eq (email u) (email v)
   \<Longrightarrow> u = v"
  by (induction us) (auto dest: strict_eq_sym)

lemma signup_invariant: "invariant s \<Longrightarrow> invariant (snd (signup now e p n s))"
  by (auto simp: signup_cases invariant_def unique_emails_snoc dest: strict_eq_sym)

lemma publishRide_invariant:
  "invariant s \<Longrightarrow> invariant (snd (publishRide now date t la lo tm pa de s))"
  by (auto simp: publishRide_cases invariant_def)

lemma handle_invariant: "invariant s \<Longrightarrow> invariant (snd (handle req s))"
  by (cases req)
    (simp_all add: signup_invariant login_state publishRide_invariant searchRides_state)

lemma reachable_invariant: "reachable s \<Longrightarrow> invariant s"
proof (induction rule: reachable.induct)
  case reachable_init
  show ?case by (simp add: invariant_def init_def)
next
  case (reachable_step s req)
  then show ?case by (simp add: handle_invariant)
qed

lemma rides_passengers_inv:
  "reachable s \<Longrightarrow>
   \<forall>r \<in> set (rides s). passengers r = NaN \<or> passengers r = PInf \<or> passengers r = NInf
     \<or> is_integer (passengers r)"
proof (induction rule: reachable.induct)
  case reachable_init
  then show ?case by (simp add: init_def)
next
  case (reachable_step s req)
  then show ?case using parseInt_range
    by (cases req) (auto simp: signup_cases login_state publishRide_cases searchRides_state)
qed

text \<open>In a reachable state the owner test of the filter is the comparison alone.\<close>

lemma matches_owned:
  assumes "\<forall>r \<in> set rs. truthy (userId r)"
  shows "matches u la lo rs =
     filter (\<lambda>r. js_le (getDistanceFromLatLonInKm la lo (lat r) (lng r)) (Fin 10)
                 \<and> \<not> strict_eq (userId r) u) rs"
  unfolding matches_def SEARCH_RADIUS_KM_def
  using assms by (intro filter_cong) (auto dest: strict_eq_truthy)

subsection \<open>Two concrete runs\<close>

lemma publish1:
  "publishRide 1000 1001 (String ''u1'') (String ''1'') (String ''2'') (String ''DRIVER'')
      (String ''3'') (String ''Mall'') init
   = ((201, PublishBody ''Ride request published successfully'' ''1000''),
      \<lparr>users = [], rides = [ride1]\<rparr>)"
  by (simp add: publishRide_def Let_def init_def ride1_def decimalString_1000 parse12
      parseInt_str_3)

lemma reachable_ride1: "reachable \<lparr>users = [], rides = [ride1]\<rparr>"
  using reachable_step [OF reachable_init, of "PublishRide 1000 1001 (String ''u1'')
      (String ''1'') (String ''2'') (String ''DRIVER'') (String ''3'') (String ''Mall'')"]
  by (simp add: publish1)

lemma publish2:
  "publishRide 2000 2001 (String ''u2'') (String ''1'') (String ''2'') (String ''RIDER'')
      (String ''1'') (String ''Station'') \<lparr>users = [], rides = [ride1]\<rparr>
   = ((201, PublishBody ''Ride request published successfully'' ''2000''),
      \<lparr>users = [], rides = [ride1, ride2]\<rparr>)"
  by (simp add: publishRide_def Let_def ride2_def decimalString_2000 parse12 parseInt_str_1)

lemma reachable_ride12: "reachable \<lparr>users = [], rides = [ride1, ride2]\<rparr>"
  using reachable_step [OF reachable_ride1, of "PublishRide 2000 2001 (String ''u2'')
      (String ''1'') (String ''2'') (String ''RIDER'') (String ''1'') (String ''Station'')"]
  by (simp add: publish2)

lemma signup1:
  "signup 1000 (String ''a@x.org'') (String ''pw1'') (String ''Ann'') init
   = ((201, SignupBody ''Registration successful'' ''1000'' (String ''Ann'')),
      \<lparr>users = [user1], rides = []\<rparr>)"
  by (simp add: signup_def Let_def init_def user1_def decimalString_1000)

lemma reachable_user1: "reachable \<lparr>users = [user1], rides = []\<rparr>"
  using reachable_step [OF reachable_init,
      of "Signup 1000 (String ''a@x.org'') (String ''pw1'') (String ''Ann'')"]
  by (simp add: signup1)

lemma singleton_filter_diff: "P a \<Longrightarrow> \<not> Q a \<Longrightarrow> {r \<in> set [a]. P r} - {r. Q r} = {a}"
  by auto

lemma list_all2_map_same:
  "(\<And>x. x \<in> set xs \<Longrightarrow> R (f x) x) \<Longrightarrow> list_all2 R (map f xs) xs"
  by (simp add: list_all2_map1 list_all2_same)

section \<open>Signup and login\<close>




text \<open>The user that \<open>find\<close> returns is the first one with the credentials.\<close>

lemma login_first_match:
  "login e p s =
     (case find (\<lambda>u. strict_eq (email u) e \<and> strict_eq (password u) p) (users s) of
        None \<Rightarrow> ((401, ErrorBody ''Invalid email or password.''), s)
      | Some u \<Rightarrow> ((200, LoginBody ''Login successful'' (id' u) (name u)), s))"
  by (simp add: login_def)

text \<open>
  Claim C5. In every reachable state: if a stored user has exactly the given email
  and password, login answers 200 with that user's identifier as token and that
  user's name; if no stored user has, it answers 401; and the state is unchanged
  either way. Emails are unique in a reachable state, so the user is determined.
\<close>

theorem login_outcomes:
  assumes "reachable s"
  shows "(\<forall>u \<in> set (users s).
            strict_eq (email u) b_email \<and> strict_eq (password u) b_password \<longrightarrow>
            login b_email b_password s
              = ((200, LoginBody ''Login successful'' (id' u) (name u)), s))
       \<and> (\<not> (\<exists>u \<in> set (users s).
                strict_eq (email u) b_email \<and> strict_eq (password u) b_password) \<longrightarrow>
            login b_email b_password s = ((401, ErrorBody ''Invalid email or password.''), s))
       \<and> snd (login b_email b_password s) = s"
proof (intro conjI ballI impI)
  fix u assume u: "u \<in> set (users s)"
    and m: "strict_eq (email u) b_email \<and> strict_eq (password u) b_password"
  from assms have uniq: "unique_emails (users s)"
    using reachable_invariant by (simp add: invariant_def)
  from u m obtain v where v:
    "find (\<lambda>u. strict_eq (email u) b_email \<and> strict_eq (password u) b_password) (users s)
       = Some v"
    by (cases "find (\<lambda>u. strict_eq (email u) b_email \<and> strict_eq (password u) b_password)
          (users s)")
       (auto simp: find_None_iff)
  then have "v \<in> set (users s)" "strict_eq (email v) b_email"
    by (auto simp: find_Some_iff)
  with m have "strict_eq (email u) (email v)"
    by (blast intro: strict_eq_trans strict_eq_sym)
  with uniq u \<open>v \<in> set (users s)\<close> have "u = v" by (rule unique_emails_same)
  with v show "login b_email b_password s
      = ((200, LoginBody ''Login successful'' (id' u) (name u)), s)"
    by (simp add: login_def)
next
  assume "\<not> (\<exists>u \<in> set (users s).
      strict_eq (email u) b_email \<and> strict_eq (password u) b_password)"
  then have
    "find (\<lambda>u. strict_eq (email u) b_email \<and> strict_eq (password u) b_password) (users s)
       = None"
    by (simp add: find_None_iff)
  then show "login b_email b_password s = ((401, ErrorBody ''Invalid email or password.''), s)"
    by (simp add: login_def)
next
  show "snd (login b_email b_password s) = s" by (rule login_state)
qed

text \<open>Ann logs in with her password, and is refused with a guess.\<close>

theorem login_outcomes_witness:
  "reachable \<lparr>users = [user1], rides = []\<rparr>
   \<and> user1 \<in> set (users \<lparr>users = [user1], rides = []\<rparr>)
   \<and> strict_eq (email user1) (String ''a@x.org'') \<and> strict_eq (password user1) (String ''pw1'')
   \<and> login (String ''a@x.org'') (String ''pw1'') \<lparr>users = [user1], rides = []\<rparr>
      = ((200, LoginBody ''Login successful'' ''1000'' (String ''Ann'')),
         \<lparr>users = [user1], rides = []\<rparr>)
   \<and> \<not> strict_eq (password user1) (String ''guess'')
   \<and> login (String ''a@x.org'') (String ''guess'') \<lparr>users = [user1], rides = []\<rparr>
      = ((401, ErrorBody ''Invalid email or password.''), \<lparr>users = [user1], rides = []\<rparr>)"
  using login_outcomes [OF reachable_user1, of "String ''a@x.org''" "String ''pw1''"]
    login_outcomes [OF reachable_user1, of "String ''a@x.org''" "String ''guess''"]
    reachable_user1
  by (simp add: user1_def)

section \<open>Publishing a ride\<close>

text \<open>
  Claim C4. A publish request that supplies token, lat and lng is answered 201 and
  its ride is appended. The handler tests the three fields for truthiness, so a
  request that supplies the number 0 as latitude is answered 400 with the message
  that ride details are missing, and nothing is appended: at this input the handler
  does not do what the claim says.
\<close>

theorem publishRide_zero_latitude:
  "publishRide now date (String ''u1'') (Number (Fin 0)) (Number (Fin 77)) b_transportMode
     b_passengers b_destination s
   = ((400, ErrorBody ''Missing ride details (location or user token).''), s)"
  by (simp add: publishRide_def)

text \<open>The same on the initial state.\<close>

theorem publishRide_zero_latitude_witness:
  "publishRide 1000 1001 (String ''u1'') (Number (Fin 0)) (Number (Fin 77)) (String ''DRIVER'')
     (String ''3'') (String ''Mall'') init
   = ((400, ErrorBody ''Missing ride details (location or user token).''), init)"
  using publishRide_zero_latitude [of 1000 1001 "String ''DRIVER''" "String ''3''"
      "String ''Mall''" init]
  by simp

text \<open>
  Claim C9, amended. The passenger count of every ride stored in a reachable state
  is an integer, \<open>NaN\<close> or an infinity; a publish request that passes validation
  appends one ride, whose passenger count is \<open>parseInt\<close> of the request's field: an
  integer, \<open>NaN\<close> or an infinity.
\<close>

theorem publishRide_passengers:
  assumes "reachable s"
  shows "(\<forall>r \<in> set (rides s). passengers r = NaN \<or> passengers r = PInf \<or> passengers r = NInf
            \<or> is_integer (passengers r))
    \<and> (truthy b_token \<and> truthy b_lat \<and> truthy b_lng \<longrightarrow>
        (\<exists>r. rides (snd (publishRide now date b_token b_lat b_lng b_transportMode
                          b_passengers b_destination s))
               = rides s @ [r]
             \<and> passengers r = parseInt b_passengers
             \<and> (passengers r = NaN \<or> passengers r = PInf \<or> passengers r = NInf
                  \<or> is_integer (passengers r))))"
  using rides_passengers_inv [OF assms] parseInt_range [of b_passengers]
  by (simp add: publishRide_cases)

text \<open>
  A second ride, published with the passengers field \<open>2 seats\<close>, stores 2; one
  published with four hundred nines stores \<open>Infinity\<close>.
\<close>

theorem publishRide_passengers_witness:
  "reachable \<lparr>users = [], rides = [ride1]\<rparr>
   \<and> is_integer (passengers ride1)
   \<and> truthy (String ''u2'') \<and> truthy (String ''4'') \<and> truthy (String ''5'')
   \<and> rides (snd (publishRide 2000 2001 (String ''u2'') (String ''4'') (String ''5'')
        (String ''RIDER'') (String ''2 seats'') Undefined \<lparr>users = [], rides = [ride1]\<rparr>))
      = [ride1, \<lparr>transportMode = String ''RIDER'', destination = Undefined,
           passengers = Fin 2, rideId = decimalString 2000, userId = String ''u2'',
           lat = Fin 4, lng = Fin 5, timestamp = 2001\<rparr>]
   \<and> rides (snd (publishRide 2000 2001 (String ''u2'') (String ''4'') (String ''5'')
        (String ''RIDER'') (String (replicate 400 CHR ''9'')) Undefined
        \<lparr>users = [], rides = [ride1]\<rparr>))
      = [ride1, \<lparr>transportMode = String ''RIDER'', destination = Undefined,
           passengers = PInf, rideId = decimalString 2000, userId = String ''u2'',
           lat = Fin 4, lng = Fin 5, timestamp = 2001\<rparr>]"
proof -
  have p: "parseFloat_str ''4'' = Fin 4" "parseFloat_str ''5'' = Fin 5"
    "parseInt_str ''2 seats'' = Fin 2"
    using numberValue_nat [of 4] numberValue_nat [of 5] numberValue_nat [of 2]
    by (simp_all add: parse_defs)
  from publishRide_passengers [OF reachable_ride1, of "String ''u2''" "String ''4''"
      "String ''5''" 2000 2001 "String ''RIDER''" "String ''2 seats''" Undefined]
    publishRide_passengers [OF reachable_ride1, of "String ''u2''" "String ''4''"
      "String ''5''" 2000 2001 "String ''RIDER''" "String (replicate 400 CHR ''9'')" Undefined]
  show ?thesis using reachable_ride1
    by (simp add: publishRide_cases p parseInt_str_nines ride1_def)
qed

text \<open>
  As the specification words it, the stored passenger count is an integer. A request
  without a passengers field passes validation and stores \<open>NaN\<close>.
\<close>

theorem publishRide_passengers_counterexample:
  "truthy (String ''u1'') \<and> truthy (String ''1'') \<and> truthy (String ''2'')
   \<and> publishRide 1000 1001 (String ''u1'') (String ''1'') (String ''2'') (String ''DRIVER'')
        Undefined (String ''Mall'') init
     = ((201, PublishBody ''Ride request published successfully'' ''1000''),
        \<lparr>users = [], rides = [ride1\<lparr>passengers := NaN\<rparr>]\<rparr>)
   \<and> \<not> is_integer (passengers (ride1\<lparr>passengers := NaN\<rparr>))"
  by (simp add: publishRide_def Let_def init_def ride1_def decimalString_1000 parse12)

section \<open>Searching rides\<close>

text \<open>
  Claim C1. In every reachable state, for every search query with latitude and
  longitude, the answer is 200 and its matches are, one for one and in order, the
  stored rides whose haversine distance from the query point is at most 10 km and
  whose owner is not the querying user, each with its transport mode, destination,
  passenger count and distance; as a set, these rides are the stored rides within
  10 km less the rides of the querying user.
\<close>

theorem search_within_radius:
  assumes "reachable s" "truthy q_lat" "truthy q_lng"
  shows "\<exists>ms. searchRides q_lat q_lng q_userId s = ((200, SearchBody ms), s)
     \<and> list_all2 (\<lambda>m r.
          transportMode m = transportMode r \<and> destination m = destination r
          \<and> passengers m = passengers r
          \<and> distanceKm m =
              toFixed (getDistanceFromLatLonInKm (parseFloat q_lat) (parseFloat q_lng)
                         (lat r) (lng r)) 2)
        ms
        (filter (\<lambda>r. js_le (getDistanceFromLatLonInKm (parseFloat q_lat) (parseFloat q_lng)
                               (lat r) (lng r)) (Fin 10)
                     \<and> \<not> strict_eq (userId r) q_userId) (rides s))
     \<and> set (filter (\<lambda>r. js_le (getDistanceFromLatLonInKm (parseFloat q_lat) (parseFloat q_lng)
                               (lat r) (lng r)) (Fin 10)
                     \<and> \<not> strict_eq (userId r) q_userId) (rides s))
        = {r \<in> set (rides s).
              js_le (getDistanceFromLatLonInKm (parseFloat q_lat) (parseFloat q_lng)
                       (lat r) (lng r)) (Fin 10)}
          - {r. strict_eq (userId r) q_userId}"
proof -
  define la where "la = parseFloat q_lat"
  define lo where "lo = parseFloat q_lng"
  define rs where
    "rs = filter (\<lambda>r. js_le (getDistanceFromLatLonInKm la lo (lat r) (lng r)) (Fin 10)
                     \<and> \<not> strict_eq (userId r) q_userId) (rides s)"
  from assms(1) have "\<forall>r \<in> set (rides s). truthy (userId r)"
    using reachable_invariant by (auto simp: invariant_def)
  then have m: "matches q_userId la lo (rides s) = rs"
    unfolding rs_def by (rule matches_owned)
  have "searchRides q_lat q_lng q_userId s
      = ((200, SearchBody (responseMatches la lo (matches q_userId la lo (rides s)))), s)"
    unfolding la_def lo_def using assms(2,3) by (rule searchRides_ok)
  then have resp: "searchRides q_lat q_lng q_userId s
      = ((200, SearchBody (responseMatches la lo rs)), s)"
    by (simp only: m)
  have rel: "list_all2 (\<lambda>m r.
          transportMode m = transportMode r \<and> destination m = destination r
          \<and> passengers m = passengers r
          \<and> distanceKm m = toFixed (getDistanceFromLatLonInKm la lo (lat r) (lng r)) 2)
        (responseMatches la lo rs) rs"
    unfolding responseMatches_def by (rule list_all2_map_same) simp
  have "set rs = {r \<in> set (rides s).
              js_le (getDistanceFromLatLonInKm la lo (lat r) (lng r)) (Fin 10)}
          - {r. strict_eq (userId r) q_userId}"
    unfolding rs_def by auto
  with resp rel show ?thesis
    unfolding rs_def la_def lo_def by blast
qed

text \<open>
  Two rides are stored at one point, the second by the requester: a search from that
  point returns the first ride, at distance \<open>0.00\<close>, and nothing else.
\<close>

theorem search_within_radius_witness:
  "reachable \<lparr>users = [], rides = [ride1, ride2]\<rparr>
   \<and> truthy (String ''1'') \<and> truthy (String ''2'')
   \<and> searchRides (String ''1'') (String ''2'') (String ''u2'')
        \<lparr>users = [], rides = [ride1, ride2]\<rparr>
     = ((200, SearchBody [\<lparr>transportMode = String ''DRIVER'', destination = String ''Mall'',
                           passengers = Fin 3, distanceKm = ''0.00''\<rparr>]),
        \<lparr>users = [], rides = [ride1, ride2]\<rparr>)"
proof -
  have t: "truthy (String ''1'')" "truthy (String ''2'')" by simp_all
  have pf: "parseFloat (String ''1'') = Fin 1" "parseFloat (String ''2'') = Fin 2"
    by (simp_all add: parse12)
  have d: "getDistanceFromLatLonInKm (Fin 1) (Fin 2) (lat ride1) (lng ride1) = Fin 0"
    "getDistanceFromLatLonInKm (Fin 1) (Fin 2) (lat ride2) (lng ride2) = Fin 0"
    by (simp_all add: ride1_def ride2_def distance_self)
  have o: "\<not> strict_eq (userId ride1) (String ''u2'')"
    "strict_eq (userId ride2) (String ''u2'')"
    by (simp_all add: ride1_def ride2_def)
  have fl: "\<lfloor>(1::real) / 2\<rfloor> = 0" by simp
  have z: "toFixed (Fin 0) 2 = ''0.00''"
    by (simp add: fixedDigits_2 decimalString_0 digitChar_0 fl)
  have r: "rides \<lparr>users = [], rides = [ride1, ride2]\<rparr> = [ride1, ride2]" by simp
  have f: "filter (\<lambda>r. js_le (getDistanceFromLatLonInKm (Fin 1) (Fin 2) (lat r) (lng r)) (Fin 10)
                     \<and> \<not> strict_eq (userId r) (String ''u2'')) [ride1, ride2] = [ride1]"
    using d o by simp
  from search_within_radius [OF reachable_ride12 t, of "String ''u2''"]
  obtain ms where resp: "searchRides (String ''1'') (String ''2'') (String ''u2'')
        \<lparr>users = [], rides = [ride1, ride2]\<rparr>
      = ((200, SearchBody ms), \<lparr>users = [], rides = [ride1, ride2]\<rparr>)"
    and rel: "list_all2 (\<lambda>m r.
          transportMode m = transportMode r \<and> destination m = destination r
          \<and> passengers m = passengers r
          \<and> distanceKm m = toFixed (getDistanceFromLatLonInKm (Fin 1) (Fin 2) (lat r) (lng r)) 2)
        ms [ride1]"
    unfolding pf r f by blast
  from rel obtain m where ms: "ms = [m]"
    and m: "transportMode m = transportMode ride1" "destination m = destination ride1"
      "passengers m = passengers ride1"
      "distanceKm m = toFixed (getDistanceFromLatLonInKm (Fin 1) (Fin 2) (lat ride1) (lng ride1)) 2"
    by (auto simp: list_all2_Cons2)
  from m have "m = \<lparr>transportMode = String ''DRIVER'', destination = String ''Mall'',
                           passengers = Fin 3, distanceKm = ''0.00''\<rparr>"
    unfolding d z by (cases m) (simp add: ride1_def)
  with resp ms reachable_ride12 t show ?thesis by simp
qed

text \<open>
  Claim C2, amended. In every reachable state, for every search query with latitude
  and longitude and every stored ride: if the ride's coordinates are finite and are
  the query's coordinates, and the ride is not owned by the requester, the ride is
  among the matches; and if the ride is owned by the requester, it is not among the
  matches, whatever its distance.
\<close>

theorem search_same_point_and_owner:
  assumes "reachable s" "truthy q_lat" "truthy q_lng" "ride \<in> set (rides s)"
  shows "fst (searchRides q_lat q_lng q_userId s) =
           (200, SearchBody (responseMatches (parseFloat q_lat) (parseFloat q_lng)
                   (matches q_userId (parseFloat q_lat) (parseFloat q_lng) (rides s))))
     \<and> (lat ride = parseFloat q_lat \<and> lng ride = parseFloat q_lng
          \<and> is_Fin (lat ride) \<and> is_Fin (lng ride) \<and> \<not> strict_eq (userId ride) q_userId
        \<longrightarrow> ride \<in> set (matches q_userId (parseFloat q_lat) (parseFloat q_lng) (rides s)))
     \<and> (strict_eq (userId ride) q_userId
        \<longrightarrow> ride \<notin> set (matches q_userId (parseFloat q_lat) (parseFloat q_lng) (rides s)))"
proof (intro conjI impI)
  show "fst (searchRides q_lat q_lng q_userId s) =
           (200, SearchBody (responseMatches (parseFloat q_lat) (parseFloat q_lng)
                   (matches q_userId (parseFloat q_lat) (parseFloat q_lng) (rides s))))"
    using assms(2,3) by (simp add: searchRides_ok)
next
  assume a: "lat ride = parseFloat q_lat \<and> lng ride = parseFloat q_lng
          \<and> is_Fin (lat ride) \<and> is_Fin (lng ride) \<and> \<not> strict_eq (userId ride) q_userId"
  then have eq: "lat ride = parseFloat q_lat" "lng ride = parseFloat q_lng"
    and fin: "is_Fin (lat ride)" "is_Fin (lng ride)"
    by blast+
  from fin obtain x y where "lat ride = Fin x" "lng ride = Fin y"
    by (cases "lat ride"; cases "lng ride") simp_all
  then have "getDistanceFromLatLonInKm (lat ride) (lng ride) (lat ride) (lng ride) = Fin 0"
    by (simp add: distance_self)
  then have "getDistanceFromLatLonInKm (parseFloat q_lat) (parseFloat q_lng)
      (lat ride) (lng ride) = Fin 0"
    by (simp only: eq)
  with a assms(4)
  show "ride \<in> set (matches q_userId (parseFloat q_lat) (parseFloat q_lng) (rides s))"
    by (simp add: matches_member)
next
  assume o: "strict_eq (userId ride) q_userId"
  from assms(1,4) have "truthy (userId ride)"
    using reachable_invariant by (auto simp: invariant_def)
  with o have "truthy q_userId" by (simp add: strict_eq_truthy)
  with o show "ride \<notin> set (matches q_userId (parseFloat q_lat) (parseFloat q_lng) (rides s))"
    by (simp add: matches_member)
qed

text \<open>
  The stored ride, searched from its own point: found by another user, not found by
  its owner.
\<close>

theorem search_same_point_and_owner_witness:
  "reachable \<lparr>users = [], rides = [ride1]\<rparr> \<and> truthy (String ''1'') \<and> truthy (String ''2'')
   \<and> ride1 \<in> set (rides \<lparr>users = [], rides = [ride1]\<rparr>)
   \<and> lat ride1 = parseFloat (String ''1'') \<and> lng ride1 = parseFloat (String ''2'')
   \<and> is_Fin (lat ride1) \<and> is_Fin (lng ride1)
   \<and> \<not> strict_eq (userId ride1) (String ''u2'')
   \<and> ride1 \<in> set (matches (String ''u2'') (parseFloat (String ''1'')) (parseFloat (String ''2''))
                    (rides \<lparr>users = [], rides = [ride1]\<rparr>))
   \<and> strict_eq (userId ride1) (String ''u1'')
   \<and> ride1 \<notin> set (matches (String ''u1'') (parseFloat (String ''1'')) (parseFloat (String ''2''))
                    (rides \<lparr>users = [], rides = [ride1]\<rparr>))"
proof -
  have t: "truthy (String ''1'')" "truthy (String ''2'')" by simp_all
  have m: "ride1 \<in> set (rides \<lparr>users = [], rides = [ride1]\<rparr>)" by simp
  have f: "lat ride1 = parseFloat (String ''1'')" "lng ride1 = parseFloat (String ''2'')"
    "is_Fin (lat ride1)" "is_Fin (lng ride1)" "\<not> strict_eq (userId ride1) (String ''u2'')"
    "strict_eq (userId ride1) (String ''u1'')"
    by (simp_all add: parse12 ride1_def)
  from search_same_point_and_owner [OF reachable_ride1 t m, of "String ''u2''"]
    search_same_point_and_owner [OF reachable_ride1 t m, of "String ''u1''"]
    reachable_ride1 t m f
  show ?thesis by blast
qed

text \<open>
  As the specification words it, a ride exactly at the requester's location is always
  included. The stored ride is at the query point here and the requester is its
  owner: the answer holds no match.
\<close>

theorem own_ride_at_query_point_counterexample:
  "ride1 \<in> set (rides \<lparr>users = [], rides = [ride1]\<rparr>)
   \<and> lat ride1 = parseFloat (String ''1'') \<and> lng ride1 = parseFloat (String ''2'')
   \<and> searchRides (String ''1'') (String ''2'') (String ''u1'') \<lparr>users = [], rides = [ride1]\<rparr>
       = ((200, SearchBody []), \<lparr>users = [], rides = [ride1]\<rparr>)"
  by (simp add: searchRides_def Let_def parse12 matches_def responseMatches_def ride1_def)

text \<open>
  Claim C8. Every match of a search answer corresponds to a matched ride and has that
  ride's transport mode, destination and passenger count, and a \<open>distanceKm\<close> that
  is the haversine distance \<open>d\<close> from the query point rounded to two decimal places:
  the string of the integer part, a point and two digits, which reads as the number
  of hundredths nearest to \<open>d\<close>, within 0.005 of \<open>d\<close>. The record type \<open>match\<close> has
  these four fields and no other.
\<close>

theorem search_response_fields:
  assumes "truthy q_lat" "truthy q_lng"
  shows "\<exists>ms. fst (searchRides q_lat q_lng q_userId s) = (200, SearchBody ms)
     \<and> list_all2 (\<lambda>m ride.
          transportMode m = transportMode ride \<and> destination m = destination ride
          \<and> passengers m = passengers ride
          \<and> (\<exists>d. getDistanceFromLatLonInKm (parseFloat q_lat) (parseFloat q_lng)
                    (lat ride) (lng ride) = Fin d
                \<and> 0 \<le> d \<and> d \<le> 10
                \<and> distanceKm m =
                    decimalString (nat \<lfloor>d * 100 + 1 / 2\<rfloor> div 100) @ ''.'' @
                    [digitChar (nat \<lfloor>d * 100 + 1 / 2\<rfloor> div 10 mod 10),
                     digitChar (nat \<lfloor>d * 100 + 1 / 2\<rfloor> mod 10)]
                \<and> parseFloat_str (distanceKm m) = Fin (real_of_int \<lfloor>d * 100 + 1 / 2\<rfloor> / 100)
                \<and> \<bar>real_of_int \<lfloor>d * 100 + 1 / 2\<rfloor> / 100 - d\<bar> \<le> 1 / 200))
        ms (matches q_userId (parseFloat q_lat) (parseFloat q_lng) (rides s))"
proof -
  define la where "la = parseFloat q_lat"
  define lo where "lo = parseFloat q_lng"
  define rs where "rs = matches q_userId la lo (rides s)"
  have resp: "fst (searchRides q_lat q_lng q_userId s)
      = (200, SearchBody (responseMatches la lo rs))"
    using assms by (simp add: searchRides_ok la_def lo_def rs_def)
  have "list_all2 (\<lambda>m ride.
          transportMode m = transportMode ride \<and> destination m = destination ride
          \<and> passengers m = passengers ride
          \<and> (\<exists>d. getDistanceFromLatLonInKm la lo (lat ride) (lng ride) = Fin d
                \<and> 0 \<le> d \<and> d \<le> 10
                \<and> distanceKm m =
                    decimalString (nat \<lfloor>d * 100 + 1 / 2\<rfloor> div 100) @ ''.'' @
                    [digitChar (nat \<lfloor>d * 100 + 1 / 2\<rfloor> div 10 mod 10),
                     digitChar (nat \<lfloor>d * 100 + 1 / 2\<rfloor> mod 10)]
                \<and> parseFloat_str (distanceKm m) = Fin (real_of_int \<lfloor>d * 100 + 1 / 2\<rfloor> / 100)
                \<and> \<bar>real_of_int \<lfloor>d * 100 + 1 / 2\<rfloor> / 100 - d\<bar> \<le> 1 / 200))
        (responseMatches la lo rs) rs"
    unfolding responseMatches_def
  proof (rule list_all2_map_same, goal_cases)
    case (1 ride)
    then obtain d where d: "getDistanceFromLatLonInKm la lo (lat ride) (lng ride) = Fin d"
      "0 \<le> d" "d \<le> 10"
      unfolding rs_def using matched_distance by blast
    then have big: "d < 10 ^ 21" by simp
    have fmt: "toFixed (Fin d) 2 =
        decimalString (nat \<lfloor>d * 100 + 1 / 2\<rfloor> div 100) @ ''.'' @
          [digitChar (nat \<lfloor>d * 100 + 1 / 2\<rfloor> div 10 mod 10),
           digitChar (nat \<lfloor>d * 100 + 1 / 2\<rfloor> mod 10)]"
      using d(2) big by (rule toFixed_2_format)
    have rb: "parseFloat_str (toFixed (Fin d) 2) = Fin (real_of_int \<lfloor>d * 100 + 1 / 2\<rfloor> / 100)"
      using d(2) big by (rule toFixed_2_reads_back)
    have near: "\<bar>real_of_int \<lfloor>d * 100 + 1 / 2\<rfloor> / 100 - d\<bar> \<le> 1 / 200"
      by (rule round_half_up_close)
    from d fmt rb near show ?case
      by (simp only: rideInfo.simps match.simps) blast
  qed
  with resp show ?thesis
    unfolding la_def lo_def rs_def by blast
qed

text \<open>The answer to a query from the point of the stored ride: distance \<open>0.00\<close>.\<close>

theorem search_response_fields_witness:
  "truthy (String ''1'') \<and> truthy (String ''2'')
   \<and> fst (searchRides (String ''1'') (String ''2'') (String ''u2'')
            \<lparr>users = [], rides = [ride1]\<rparr>)
     = (200, SearchBody [\<lparr>transportMode = String ''DRIVER'', destination = String ''Mall'',
                          passengers = Fin 3, distanceKm = ''0.00''\<rparr>])"
proof -
  have t: "truthy (String ''1'')" "truthy (String ''2'')" by simp_all
  have m: "matches (String ''u2'') (Fin 1) (Fin 2) [ride1] = [ride1]"
    by (simp add: matches_def ride1_def distance_self SEARCH_RADIUS_KM_def)
  have fl: "\<lfloor>(1::real) / 2\<rfloor> = 0" by simp
  have f: "fixedDigits 0 2 = ''0.00''"
    by (simp add: fixedDigits_2 decimalString_0 digitChar_0 fl)
  have "responseMatches (Fin 1) (Fin 2) [ride1] =
    [\<lparr>transportMode = String ''DRIVER'', destination = String ''Mall'',
                          passengers = Fin 3, distanceKm = ''0.00''\<rparr>]"
    by (simp add: responseMatches_def ride1_def distance_self f)
  with m search_response_fields [OF t, of "String ''u2''" "\<lparr>users = [], rides = [ride1]\<rparr>"] t
  show ?thesis
    by (simp add: searchRides_def parse12)
qed

text \<open>
  Claim C10, amended. A search request whose lat and lng are present and not empty,
  and do not parse as numbers, is answered 200 with no match, not 400, whatever rides
  are stored.
\<close>

theorem search_unparsable:
  assumes "truthy q_lat" "truthy q_lng" "parseFloat q_lat = NaN" "parseFloat q_lng = NaN"
  shows "searchRides q_lat q_lng q_userId s = ((200, SearchBody []), s)"
  using assms by (simp add: searchRides_def Let_def matches_NaN responseMatches_def)

text \<open>The stored ride is not found from \<open>abc\<close>, \<open>north\<close>.\<close>

theorem search_unparsable_witness:
  "truthy (String ''abc'') \<and> truthy (String ''north'') \<and> parseFloat (String ''abc'') = NaN
   \<and> parseFloat (String ''north'') = NaN
   \<and> searchRides (String ''abc'') (String ''north'') (String ''u2'')
        \<lparr>users = [], rides = [ride1]\<rparr>
       = ((200, SearchBody []), \<lparr>users = [], rides = [ride1]\<rparr>)"
proof -
  have 1: "truthy (String ''abc'')" "truthy (String ''north'')" by simp_all
  have 2: "parseFloat (String ''abc'') = NaN" "parseFloat (String ''north'') = NaN"
    by (simp_all add: parse_defs)
  from search_unparsable [OF 1 2] 1 2 show ?thesis by simp
qed

text \<open>
  As the specification words it, lat and lng need only be present. The query string
  \<open>lat=&lng=abc\<close> has both, the first one empty; neither parses as a number, and the
  answer is 400.
\<close>

theorem search_empty_latitude_counterexample:
  "String [] \<noteq> Undefined \<and> String ''abc'' \<noteq> Undefined
   \<and> parseFloat (String []) = NaN \<and> parseFloat (String ''abc'') = NaN
   \<and> searchRides (String []) (String ''abc'') (String ''u2'') \<lparr>users = [], rides = [ride1]\<rparr>
       = ((400, ErrorBody ''Latitude and Longitude required for search.''),
          \<lparr>users = [], rides = [ride1]\<rparr>)"
  by (simp add: searchRides_def parse_defs)

end
